theory Spec2Isabelle
  imports Main
begin

section \<open>The packaging script \<^verbatim>\<open>setup.py\<close> of sequana\_ribofinder\<close>

text \<open>
  The repository's source is one file, \<^verbatim>\<open>setup.py\<close>. It declares the package
  metadata, two command classes \<^verbatim>\<open>Install\<close> and \<^verbatim>\<open>Develop\<close> whose
  \<^verbatim>\<open>run\<close> methods call the program \<^verbatim>\<open>sequana_completion\<close> before the
  setuptools command they extend, and the call \<^verbatim>\<open>setup(...)\<close> with its entry
  points. This theory embeds the command string, the two \<^verbatim>\<open>run\<close> methods and the
  entry points.
\<close>

subsection \<open>Python strings\<close>

text \<open>
  \<^verbatim>\<open>str.split()\<close> without an argument cuts a string at every run of white space
  and returns the words between the runs; white space at either end gives no empty
  word. The white-space characters below 128 are the codes 9 to 13 and 28 to 32.
\<close>

definition is_space :: "char \<Rightarrow> bool" where
  "is_space c = (let n = (of_char c :: nat) in (9 \<le> n \<and> n \<le> 13) \<or> (28 \<le> n \<and> n \<le> 32))"

text \<open>The loop over the characters; \<open>w\<close> is the word read so far.\<close>

fun split_words :: "string \<Rightarrow> string \<Rightarrow> string list" where
  "split_words w [] = (if w = [] then [] else [w])"
| "split_words w (c # cs) =
     (if is_space c then (if w = [] then split_words [] cs else w # split_words [] cs)
      else split_words (w @ [c]) cs)"

definition py_split :: "string \<Rightarrow> string list" where
  "py_split s = split_words [] s"

text \<open>
  \<^verbatim>\<open>str.format\<close> with positional arguments, for templates whose replacement fields
  are all the automatic field \<^verbatim>\<open>{}\<close>: each field takes the next argument, a doubled
  brace stands for one brace, other text is copied. The result is \<open>None\<close> where
  Python raises (a single brace, a field with no argument left) and for the field syntax
  left out here (numbered or named fields, conversions, format specifications).
\<close>

fun py_format :: "string \<Rightarrow> string list \<Rightarrow> string option" where
  "py_format [] args = Some []"
| "py_format [c] args = (if c = CHR ''{'' \<or> c = CHR ''}'' then None else Some [c])"
| "py_format (c # d # t) args =
     (if c = CHR ''{'' \<and> d = CHR ''}'' then
        (case args of [] \<Rightarrow> None | a # as \<Rightarrow> map_option ((@) a) (py_format t as))
      else if c = CHR ''{'' \<and> d = CHR ''{'' then map_option ((#) c) (py_format t args)
      else if c = CHR ''}'' \<and> d = CHR ''}'' then map_option ((#) c) (py_format t args)
      else if c = CHR ''{'' \<or> c = CHR ''}'' then None
      else map_option ((#) c) (py_format (d # t) args))"

subsection \<open>The module constants\<close>

definition NAME :: string where
  "NAME = ''ribofinder''"

subsection \<open>Entry points\<close>

text \<open>
  The keyword argument \<^verbatim>\<open>entry_points\<close> of the call \<^verbatim>\<open>setup(...)\<close>: a dictionary
  from a group name to the list of its entries.
\<close>

definition entry_points :: "(string \<times> string list) list" where
  "entry_points =
     [(''console_scripts'', [''sequana_ribofinder=sequana_pipelines.ribofinder.main:main''])]"

text \<open>
  setuptools reads an entry as \<^verbatim>\<open>name = module:attr\<close>: the name is what stands before
  the first \<^verbatim>\<open>=\<close>, the module what stands between it and the first \<^verbatim>\<open>:\<close> after it,
  and the attribute (the function a console script calls) what follows; white space
  around each part is dropped. An entry with no \<^verbatim>\<open>=\<close> or no \<^verbatim>\<open>:\<close> names no
  function and is \<open>None\<close> here.
\<close>

record entry_point =
  ep_name :: string
  ep_module :: string
  ep_attr :: string

fun split_first :: "char \<Rightarrow> string \<Rightarrow> (string \<times> string) option" where
  "split_first sep [] = None"
| "split_first sep (c # cs) =
     (if c = sep then Some ([], cs)
      else map_option (\<lambda>(l, r). (c # l, r)) (split_first sep cs))"

definition strip :: "string \<Rightarrow> string" where
  "strip s = rev (dropWhile is_space (rev (dropWhile is_space s)))"

definition parse_entry_point :: "string \<Rightarrow> entry_point option" where
  "parse_entry_point e =
     (case split_first (CHR ''='') e of
        None \<Rightarrow> None
      | Some (n, v) \<Rightarrow>
          (case split_first (CHR '':'') v of
             None \<Rightarrow> None
           | Some (m, a) \<Rightarrow>
               Some \<lparr>ep_name = strip n, ep_module = strip m, ep_attr = strip a\<rparr>))"

text \<open>The console scripts a dictionary of entry points registers, in order.\<close>

definition console_scripts :: "(string \<times> string list) list \<Rightarrow> entry_point option list" where
  "console_scripts eps =
     (case map_of eps ''console_scripts'' of
        None \<Rightarrow> []
      | Some es \<Rightarrow> map parse_entry_point es)"

text \<open>
  The names of the keyword arguments of the call \<^verbatim>\<open>setup(...)\<close>, in the order
  they are written.
\<close>

definition setup_keywords :: "string list" where
  "setup_keywords =
     [''name'', ''version'', ''maintainer'', ''maintainer_email'', ''author'',
      ''author_email'', ''long_description'', ''keywords'', ''description'', ''license'',
      ''platforms'', ''url'', ''classifiers'', ''packages'', ''install_requires'',
      ''exclude_package_data'', ''package_data'', ''zip_safe'', ''entry_points'']"

subsection \<open>Calls, exceptions and the outside world\<close>

text \<open>
  The script defines neither \<^verbatim>\<open>subprocess.run\<close> nor the \<^verbatim>\<open>run\<close> methods of
  the setuptools commands \<^verbatim>\<open>install\<close> and \<^verbatim>\<open>develop\<close>; what they do depends on
  the machine. They are parameters of the model: each takes the state of the outside
  world \<open>'w\<close> and gives back either the exception it raises (\<open>Inl\<close>) or its value
  (\<open>Inr\<close>; for \<^verbatim>\<open>subprocess.run\<close> the return code of the finished process),
  together with the new state of the world.
\<close>

datatype py_exception =
    FileNotFoundError
  | PermissionError
  | KeyboardInterrupt
  | SystemExit
  | ValueError
  | OtherException string

record 'w externals =
  subprocess_run :: "string list \<Rightarrow> 'w \<Rightarrow> (py_exception + int) \<times> 'w"
  install_run :: "'w \<Rightarrow> (py_exception + unit) \<times> 'w"
  develop_run :: "'w \<Rightarrow> (py_exception + unit) \<times> 'w"

text \<open>The calls a method makes are written to a log, in the order they are made.\<close>

datatype call =
    Call_subprocess_run "string list"
  | Call_install_run
  | Call_develop_run

record 'w py_state =
  world :: 'w
  calls :: "call list"

type_synonym ('w, 'a) py = "'w py_state \<Rightarrow> (py_exception + 'a) \<times> 'w py_state"

definition call_subprocess_run :: "'w externals \<Rightarrow> string list \<Rightarrow> ('w, int) py" where
  "call_subprocess_run ext argv s =
     (case subprocess_run ext argv (world s) of
        (r, w) \<Rightarrow> (r, \<lparr>world = w, calls = calls s @ [Call_subprocess_run argv]\<rparr>))"

definition call_install_run :: "'w externals \<Rightarrow> ('w, unit) py" where
  "call_install_run ext s =
     (case install_run ext (world s) of
        (r, w) \<Rightarrow> (r, \<lparr>world = w, calls = calls s @ [Call_install_run]\<rparr>))"

definition call_develop_run :: "'w externals \<Rightarrow> ('w, unit) py" where
  "call_develop_run ext s =
     (case develop_run ext (world s) of
        (r, w) \<Rightarrow> (r, \<lparr>world = w, calls = calls s @ [Call_develop_run]\<rparr>))"

definition py_raise :: "py_exception \<Rightarrow> ('w, 'a) py" where
  "py_raise e s = (Inl e, s)"

text \<open>
  \<^verbatim>\<open>try: body\<close> \<^verbatim>\<open>except: pass\<close>: the handler has no exception class, so it
  catches whatever the body raises; the statement then ends normally, as it does when
  the body raises nothing. The value of the body is dropped either way.
\<close>

definition try_except_pass :: "('w, 'a) py \<Rightarrow> ('w, unit) py" where
  "try_except_pass body s =
     (case body s of
        (Inl e, s') \<Rightarrow> (Inr (), s')
      | (Inr v, s') \<Rightarrow> (Inr (), s'))"

text \<open>Two statements in a row: the second runs only if the first raises nothing.\<close>

definition py_then :: "('w, unit) py \<Rightarrow> ('w, 'a) py \<Rightarrow> ('w, 'a) py" where
  "py_then first second s =
     (case first s of
        (Inl e, s') \<Rightarrow> (Inl e, s')
      | (Inr u, s') \<Rightarrow> second s')"

subsection \<open>The command classes\<close>

text \<open>
  \<^verbatim>\<open>Install.run\<close>: build the command string, call \<^verbatim>\<open>subprocess.run\<close> on its
  words inside \<^verbatim>\<open>try\<close>/\<^verbatim>\<open>except: pass\<close>, then call \<^verbatim>\<open>install.run(self)\<close>.
  The string is built before the \<^verbatim>\<open>try\<close>, so an exception of \<^verbatim>\<open>format\<close> would
  leave the method.
\<close>

definition Install_run :: "'w externals \<Rightarrow> ('w, unit) py" where
  "Install_run ext =
     (case py_format ''sequana_completion --name {} --force '' [NAME] of
        None \<Rightarrow> py_raise ValueError
      | Some cmd \<Rightarrow>
          py_then (try_except_pass (call_subprocess_run ext (py_split cmd)))
                  (call_install_run ext))"

text \<open>\<^verbatim>\<open>Develop.run\<close>: the same statements, ending in \<^verbatim>\<open>develop.run(self)\<close>.\<close>

definition Develop_run :: "'w externals \<Rightarrow> ('w, unit) py" where
  "Develop_run ext =
     (case py_format ''sequana_completion --name {} --force '' [NAME] of
        None \<Rightarrow> py_raise ValueError
      | Some cmd \<Rightarrow>
          py_then (try_except_pass (call_subprocess_run ext (py_split cmd)))
                  (call_develop_run ext))"

text \<open>
  A machine on which \<^verbatim>\<open>sequana_completion\<close> is not installed: starting the
  process raises \<^verbatim>\<open>FileNotFoundError\<close>; the setuptools commands succeed. The world
  counts the setuptools commands that have run.
\<close>

definition completion_absent :: "nat externals" where
  "completion_absent =
     \<lparr>subprocess_run = (\<lambda>argv w. (Inl FileNotFoundError, w)),
      install_run = (\<lambda>w. (Inr (), Suc w)),
      develop_run = (\<lambda>w. (Inr (), Suc w))\<rparr>"


section \<open>Properties\<close>

subsection \<open>The console entry point\<close>

lemma split_first_eq:
  "split_first (CHR ''='') ''sequana_ribofinder=sequana_pipelines.ribofinder.main:main''
     = Some (''sequana_ribofinder'', ''sequana_pipelines.ribofinder.main:main'')"
  by simp

lemma split_first_colon:
  "split_first (CHR '':'') ''sequana_pipelines.ribofinder.main:main''
     = Some (''sequana_pipelines.ribofinder.main'', ''main'')"
  by simp

lemma strip_names:
  "strip ''sequana_ribofinder'' = ''sequana_ribofinder''"
  "strip ''sequana_pipelines.ribofinder.main'' = ''sequana_pipelines.ribofinder.main''"
  "strip ''main'' = ''main''"
  by (simp_all add: strip_def is_space_def)

text \<open>
  C8: the entry points passed to \<^verbatim>\<open>setup\<close> have the single group
  \<^verbatim>\<open>console_scripts\<close>, and that group registers exactly one console script: its name
  is \<^verbatim>\<open>sequana_ribofinder\<close> and it calls the function \<^verbatim>\<open>main\<close> of the module
  \<^verbatim>\<open>sequana_pipelines.ribofinder.main\<close>.
\<close>

theorem console_entry_point:
  "map fst entry_points = [''console_scripts''] \<and>
   console_scripts entry_points =
     [Some \<lparr>ep_name = ''sequana_ribofinder'',
            ep_module = ''sequana_pipelines.ribofinder.main'',
            ep_attr = ''main''\<rparr>]"
  by (simp add: entry_points_def console_scripts_def parse_entry_point_def
      split_first_eq split_first_colon strip_names del: split_first.simps)

text \<open>
  Entry points are the only keyword of the call that registers scripts or commands:
  it passes neither \<^verbatim>\<open>scripts\<close> nor \<^verbatim>\<open>cmdclass\<close>. The classes
  \<^verbatim>\<open>Install\<close> and \<^verbatim>\<open>Develop\<close> are thus defined but not handed to setuptools
  by this call; the properties of the next two subsections are about their \<^verbatim>\<open>run\<close>
  methods whenever these are called.
\<close>

lemma setup_keywords_registering:
  "filter (\<lambda>k. k \<in> {''entry_points'', ''scripts'', ''cmdclass''}) setup_keywords
     = [''entry_points'']"
  by (simp add: setup_keywords_def)

subsection \<open>The completion command\<close>

lemma cmd_format:
  "py_format ''sequana_completion --name {} --force '' [NAME]
     = Some ''sequana_completion --name ribofinder --force ''"
  by (simp add: NAME_def)

lemma cmd_split:
  "py_split ''sequana_completion --name ribofinder --force ''
     = [''sequana_completion'', ''--name'', ''ribofinder'', ''--force'']"
  by (simp add: py_split_def is_space_def)

lemma cmd_split_trimmed:
  "py_split ''sequana_completion --name ribofinder --force''
     = [''sequana_completion'', ''--name'', ''ribofinder'', ''--force'']"
  by (simp add: py_split_def is_space_def)

lemma Install_run_unfold:
  "Install_run ext s =
     (case subprocess_run ext [''sequana_completion'', ''--name'', ''ribofinder'', ''--force'']
             (world s) of
        (r, w) \<Rightarrow>
          (fst (install_run ext w),
           \<lparr>world = snd (install_run ext w),
            calls = calls s @
              [Call_subprocess_run [''sequana_completion'', ''--name'', ''ribofinder'', ''--force''],
               Call_install_run]\<rparr>))"
  unfolding Install_run_def cmd_format cmd_split option.case
  by (simp add: py_then_def try_except_pass_def call_subprocess_run_def call_install_run_def
      split: prod.splits sum.splits)

lemma Develop_run_unfold:
  "Develop_run ext s =
     (case subprocess_run ext [''sequana_completion'', ''--name'', ''ribofinder'', ''--force'']
             (world s) of
        (r, w) \<Rightarrow>
          (fst (develop_run ext w),
           \<lparr>world = snd (develop_run ext w),
            calls = calls s @
              [Call_subprocess_run [''sequana_completion'', ''--name'', ''ribofinder'', ''--force''],
               Call_develop_run]\<rparr>))"
  unfolding Develop_run_def cmd_format cmd_split option.case
  by (simp add: py_then_def try_except_pass_def call_subprocess_run_def call_develop_run_def
      split: prod.splits sum.splits)

text \<open>
  C9: in both \<^verbatim>\<open>Install.run\<close> and \<^verbatim>\<open>Develop.run\<close> the command string is
  \<^verbatim>\<open>sequana_completion --name ribofinder --force\<close> followed by one space, and its
  words are those of \<^verbatim>\<open>sequana_completion --name ribofinder --force\<close>. Each
  method first hands these words to \<^verbatim>\<open>subprocess.run\<close>, in the world it was
  called in, and then runs the setuptools command (\<^verbatim>\<open>install.run\<close>,
  \<^verbatim>\<open>develop.run\<close>) in the world the process has left: the method's result and
  final world are those of the setuptools command there, and the log holds the two
  calls in this order. This holds whatever \<^verbatim>\<open>subprocess.run\<close> and the setuptools
  commands do.
\<close>

theorem hooks_call_completion_then_setuptools:
  "py_format ''sequana_completion --name {} --force '' [NAME]
     = Some (''sequana_completion --name ribofinder --force'' @ '' '') \<and>
   map_option py_split (py_format ''sequana_completion --name {} --force '' [NAME])
     = Some (py_split ''sequana_completion --name ribofinder --force'') \<and>
   py_split ''sequana_completion --name ribofinder --force''
     = [''sequana_completion'', ''--name'', ''ribofinder'', ''--force''] \<and>
   Install_run ext s =
     (fst (install_run ext
        (snd (subprocess_run ext (py_split ''sequana_completion --name ribofinder --force'')
                (world s)))),
      \<lparr>world = snd (install_run ext
         (snd (subprocess_run ext (py_split ''sequana_completion --name ribofinder --force'')
                 (world s)))),
       calls = calls s @
         [Call_subprocess_run (py_split ''sequana_completion --name ribofinder --force''),
          Call_install_run]\<rparr>) \<and>
   Develop_run ext s =
     (fst (develop_run ext
        (snd (subprocess_run ext (py_split ''sequana_completion --name ribofinder --force'')
                (world s)))),
      \<lparr>world = snd (develop_run ext
         (snd (subprocess_run ext (py_split ''sequana_completion --name ribofinder --force'')
                 (world s)))),
       calls = calls s @
         [Call_subprocess_run (py_split ''sequana_completion --name ribofinder --force''),
          Call_develop_run]\<rparr>)"
proof -
  have fmt: "py_format ''sequana_completion --name {} --force '' [NAME]
      = Some (''sequana_completion --name ribofinder --force'' @ '' '')"
    unfolding cmd_format by simp
  have words: "map_option py_split (py_format ''sequana_completion --name {} --force '' [NAME])
      = Some (py_split ''sequana_completion --name ribofinder --force'')"
    unfolding cmd_format option.map cmd_split cmd_split_trimmed by (rule refl)
  have inst: "Install_run ext s =
     (fst (install_run ext
        (snd (subprocess_run ext (py_split ''sequana_completion --name ribofinder --force'')
                (world s)))),
      \<lparr>world = snd (install_run ext
         (snd (subprocess_run ext (py_split ''sequana_completion --name ribofinder --force'')
                 (world s)))),
       calls = calls s @
         [Call_subprocess_run (py_split ''sequana_completion --name ribofinder --force''),
          Call_install_run]\<rparr>)"
    unfolding cmd_split_trimmed Install_run_unfold
    by (simp split: prod.splits)
  have dev: "Develop_run ext s =
     (fst (develop_run ext
        (snd (subprocess_run ext (py_split ''sequana_completion --name ribofinder --force'')
                (world s)))),
      \<lparr>world = snd (develop_run ext
         (snd (subprocess_run ext (py_split ''sequana_completion --name ribofinder --force'')
                 (world s)))),
       calls = calls s @
         [Call_subprocess_run (py_split ''sequana_completion --name ribofinder --force''),
          Call_develop_run]\<rparr>)"
    unfolding cmd_split_trimmed Develop_run_unfold
    by (simp split: prod.splits)
  from fmt words cmd_split_trimmed inst dev show ?thesis
    by (intro conjI)
qed

subsection \<open>A failing completion command\<close>

text \<open>
  C10: let \<^verbatim>\<open>subprocess.run\<close> on the completion command end in any way: it returns
  with any return code or raises any exception (\<open>outcome\<close>), leaving the world in
  state \<open>w\<close>. Then \<^verbatim>\<open>Install.run\<close> goes on to call \<^verbatim>\<open>install.run\<close> in \<open>w\<close>,
  and it raises exactly what \<^verbatim>\<open>install.run\<close> raises there, or ends normally if
  \<^verbatim>\<open>install.run\<close> does: \<open>outcome\<close> has no part in the result. The same holds for
  \<^verbatim>\<open>Develop.run\<close> and \<^verbatim>\<open>develop.run\<close>.
\<close>

theorem completion_failure_swallowed:
  assumes "subprocess_run ext [''sequana_completion'', ''--name'', ''ribofinder'', ''--force'']
             (world s) = (outcome, w)"
  shows "Install_run ext s =
           (fst (install_run ext w),
            \<lparr>world = snd (install_run ext w),
             calls = calls s @
               [Call_subprocess_run [''sequana_completion'', ''--name'', ''ribofinder'', ''--force''],
                Call_install_run]\<rparr>) \<and>
         Develop_run ext s =
           (fst (develop_run ext w),
            \<lparr>world = snd (develop_run ext w),
             calls = calls s @
               [Call_subprocess_run [''sequana_completion'', ''--name'', ''ribofinder'', ''--force''],
                Call_develop_run]\<rparr>)"
  using assms by (simp add: Install_run_unfold Develop_run_unfold)

text \<open>
  On a machine without \<^verbatim>\<open>sequana_completion\<close> the process cannot start; both
  methods still run the setuptools command and end normally.
\<close>

theorem completion_failure_swallowed_witness:
  "subprocess_run completion_absent [''sequana_completion'', ''--name'', ''ribofinder'', ''--force'']
     (world \<lparr>world = 0, calls = []\<rparr>) = (Inl FileNotFoundError, 0) \<and>
   Install_run completion_absent \<lparr>world = 0, calls = []\<rparr> =
     (Inr (),
      \<lparr>world = Suc 0,
       calls = [Call_subprocess_run [''sequana_completion'', ''--name'', ''ribofinder'', ''--force''],
                Call_install_run]\<rparr>) \<and>
   Develop_run completion_absent \<lparr>world = 0, calls = []\<rparr> =
     (Inr (),
      \<lparr>world = Suc 0,
       calls = [Call_subprocess_run [''sequana_completion'', ''--name'', ''ribofinder'', ''--force''],
                Call_develop_run]\<rparr>)"
proof -
  have h: "subprocess_run completion_absent
             [''sequana_completion'', ''--name'', ''ribofinder'', ''--force'']
             (world \<lparr>world = 0, calls = []\<rparr>) = (Inl FileNotFoundError, 0)"
    by (simp add: completion_absent_def)
  show ?thesis
    using h completion_failure_swallowed [OF h]
    by (simp add: completion_absent_def)
qed

end
